theory Spec2Isabelle
  imports Main "HOL-Library.AList"
begin

section \<open>Handler signatures (aioweb/async_web.py, lines 50--112)\<close>

text \<open>
  \<^verbatim>\<open>inspect.signature(func).parameters\<close> is an ordered mapping from parameter
  names to parameters.  It is modelled as the list of its parameters in declaration
  order.  Of a parameter the code reads its name, its kind and whether
  \<^verbatim>\<open>param.default == inspect.Parameter.empty\<close>.
\<close>

datatype param_kind =
  POSITIONAL_ONLY | POSITIONAL_OR_KEYWORD | VAR_POSITIONAL | KEYWORD_ONLY | VAR_KEYWORD

record param =
  pname :: string
  kind :: param_kind
  has_default :: bool

type_synonym signature = "param list"

datatype exn =
  ValueError string
  | TypeError string
  | AttributeError string
  | IndexError
  | PoolNotFoundError string
  | SqlExecutionError string
  | DuplicatePrimaryKeyError string
  | PrimaryKeyNotFoundError string
  | OtherError string

text \<open>
  \<^verbatim>\<open>
  def get_required_kwargs(func):
      args = []
      params = inspect.signature(func).parameters
      for name, param in params.items():
          if param.kind == inspect.Parameter.KEYWORD_ONLY and param.default == inspect.Parameter.empty:
              args.append(name)
      return tuple(args)
  \<close>
\<close>

fun get_required_kwargs_loop :: "string list \<Rightarrow> signature \<Rightarrow> string list" where
  "get_required_kwargs_loop args [] = args"
| "get_required_kwargs_loop args (p # ps) =
     (if kind p = KEYWORD_ONLY \<and> \<not> has_default p
      then get_required_kwargs_loop (args @ [pname p]) ps
      else get_required_kwargs_loop args ps)"

definition get_required_kwargs :: "signature \<Rightarrow> string list" where
  "get_required_kwargs params = get_required_kwargs_loop [] params"

fun get_named_kwargs_loop :: "string list \<Rightarrow> signature \<Rightarrow> string list" where
  "get_named_kwargs_loop args [] = args"
| "get_named_kwargs_loop args (p # ps) =
     (if kind p = KEYWORD_ONLY
      then get_named_kwargs_loop (args @ [pname p]) ps
      else get_named_kwargs_loop args ps)"

definition get_named_kwargs :: "signature \<Rightarrow> string list" where
  "get_named_kwargs params = get_named_kwargs_loop [] params"

fun has_named_kwargs :: "signature \<Rightarrow> bool" where
  "has_named_kwargs [] = False"
| "has_named_kwargs (p # ps) = (if kind p = KEYWORD_ONLY then True else has_named_kwargs ps)"

fun has_var_kwarg :: "signature \<Rightarrow> bool" where
  "has_var_kwarg [] = False"
| "has_var_kwarg (p # ps) = (if kind p = VAR_KEYWORD then True else has_var_kwarg ps)"

text \<open>
  \<^verbatim>\<open>
  def has_request_arg(func):
      sig = inspect.signature(func)
      params = sig.parameters
      found = False
      for name, param in params.items():
          if name == 'request':
              found = True
              continue
          if found and (param.kind != inspect.Parameter.VAR_POSITIONAL and
                        param.kind != inspect.Parameter.KEYWORD_ONLY and
                        param.kind != inspect.Parameter.VAR_KEYWORD):
              raise ValueError('request parameter must be the last named parameter in function: %s%s' %
                               (func.__name__, str(sig)))
      return found
  \<close>
  The function is modelled by the data the framework reads of it: its name, the text
  \<^verbatim>\<open>str(sig)\<close>, its parameters, and (further below) its behaviour when called.
\<close>

fun has_request_arg_loop :: "string \<Rightarrow> bool \<Rightarrow> signature \<Rightarrow> exn + bool" where
  "has_request_arg_loop msg found [] = Inr found"
| "has_request_arg_loop msg found (p # ps) =
     (if pname p = ''request'' then has_request_arg_loop msg True ps
      else if found \<and> (kind p \<noteq> VAR_POSITIONAL \<and> kind p \<noteq> KEYWORD_ONLY \<and> kind p \<noteq> VAR_KEYWORD)
      then Inl (ValueError msg)
      else has_request_arg_loop msg found ps)"

definition has_request_arg :: "string \<Rightarrow> string \<Rightarrow> signature \<Rightarrow> exn + bool" where
  "has_request_arg fname sig_str params =
     has_request_arg_loop
       (''request parameter must be the last named parameter in function: '' @ fname @ sig_str)
       False params"


section \<open>Values, requests and responses\<close>

text \<open>
  Python values as far as the framework inspects them.  A \<^verbatim>\<open>str\<close> is modelled by
  the bytes of its UTF-8 encoding, so that \<^verbatim>\<open>s.encode('utf-8')\<close> is the identity;
  floating-point numbers are left out.  \<open>PObject s d\<close> stands for an object of any other
  class: \<open>s\<close> is the text \<^verbatim>\<open>str(o)\<close> and \<open>d\<close> its \<^verbatim>\<open>__dict__\<close>, when
  it has one.  A \<^verbatim>\<open>dict\<close> is the list of its items in insertion order.
\<close>

datatype pyval =
  PNone
  | PBool bool
  | PInt int
  | PStr string
  | PBytes string
  | PList "pyval list"
  | PTuple "pyval list"
  | PDict "(pyval \<times> pyval) list"
  | PObject string "(string \<times> pyval) list option"

text \<open>
  A JSON document.  The framework hands JSON text to and takes it from Python's
  \<^verbatim>\<open>json\<close> module; the model works on the document that the text denotes.
\<close>

datatype json =
  JNull
  | JBool bool
  | JInt int
  | JString string
  | JArray "json list"
  | JObject "(string \<times> json) list"

datatype body = Bytes string | Json_text json

record response =
  status :: int
  body :: "body option"
  res_text :: "string option"
  res_content_type :: "string option"
  location :: "string option"

text \<open>\<^verbatim>\<open>web.Response(status=200, body=None, text=None)\<close> and the two exception classes
  of aiohttp that the code instantiates; their status codes are aiohttp's.\<close>

definition web_Response :: "int \<Rightarrow> body option \<Rightarrow> string option \<Rightarrow> response" where
  "web_Response st b t =
     \<lparr>status = st, body = b, res_text = t, res_content_type = None, location = None\<rparr>"

definition HTTPBadRequest :: "string \<Rightarrow> response" where
  "HTTPBadRequest t =
     \<lparr>status = 400, body = None, res_text = Some t, res_content_type = None, location = None\<rparr>"

definition HTTPFound :: "string \<Rightarrow> response" where
  "HTTPFound loc =
     \<lparr>status = 302, body = None, res_text = None, res_content_type = None, location = Some loc\<rparr>"

text \<open>
  Of a request the binder reads: the method, the content type, the result of
  \<^verbatim>\<open>await request.json()\<close>, the dictionary \<^verbatim>\<open>dict(**(await request.post()))\<close>,
  the query string with the items of \<^verbatim>\<open>parse.parse_qs(qs, True)\<close>, and the items of
  \<^verbatim>\<open>request.match_info\<close>.  The two body readers may raise.
\<close>

record request =
  req_method :: string
  content_type :: "string option"
  json_body :: "exn + json"
  post_body :: "exn + (string \<times> pyval) list"
  query_string :: string
  parse_qs :: "(string \<times> string list) list"
  match_info :: "(string \<times> string) list"

datatype kwarg = Arg pyval | RequestArg request

type_synonym kwargs = "(string \<times> kwarg) list"

text \<open>What a handler returns: a \<^verbatim>\<open>web.StreamResponse\<close> instance or any other value.\<close>

datatype retval = Stream response | Value pyval

text \<open>The outcome of \<^verbatim>\<open>await self._func(**kw)\<close>: a value, an \<^verbatim>\<open>APIError\<close> with its
  attributes \<^verbatim>\<open>error\<close>, \<^verbatim>\<open>data\<close> and \<^verbatim>\<open>msg\<close>, or any other exception.\<close>

datatype outcome = Return retval | Raise_APIError pyval pyval pyval | Raise exn

record func =
  fname :: string
  sig_str :: string
  params :: signature
  call :: "kwargs \<Rightarrow> outcome"

record request_handler =
  h_func :: func
  h_has_request_arg :: bool
  h_has_var_kwarg :: bool
  h_has_named_kwargs :: bool
  h_named_kwargs :: "string list"
  h_required_kwargs :: "string list"

text \<open>\<^verbatim>\<open>RequestHandler.__init__\<close>: the only step that can raise is \<open>has_request_arg\<close>.\<close>

definition RequestHandler_init :: "func \<Rightarrow> exn + request_handler" where
  "RequestHandler_init f =
     (case has_request_arg (fname f) (sig_str f) (params f) of
        Inl e \<Rightarrow> Inl e
      | Inr found \<Rightarrow>
          Inr \<lparr>h_func = f,
               h_has_request_arg = found,
               h_has_var_kwarg = has_var_kwarg (params f),
               h_has_named_kwargs = has_named_kwargs (params f),
               h_named_kwargs = get_named_kwargs (params f),
               h_required_kwargs = get_required_kwargs (params f)\<rparr>)"

section \<open>The argument binder (\<^verbatim>\<open>RequestHandler.__call__\<close>, lines 114--161)\<close>

text \<open>Dictionary operations: \<^verbatim>\<open>k in d\<close>, \<^verbatim>\<open>d[k] = v\<close> (\<^const>\<open>AList.update\<close>: an
  existing key keeps its place, a new one goes last) and building a dictionary from items.\<close>

definition has_key :: "('k \<times> 'v) list \<Rightarrow> 'k \<Rightarrow> bool" where
  "has_key d k = (map_of d k \<noteq> None)"

definition dict_of :: "('k \<times> 'v) list \<Rightarrow> ('k \<times> 'v) list" where
  "dict_of items = fold (\<lambda>(k, v) d. AList.update k v d) items []"

text \<open>\<^verbatim>\<open>json.loads\<close> on a document: an object becomes a \<^verbatim>\<open>dict\<close> with \<^verbatim>\<open>str\<close>
  keys (of a repeated member name the last value stays), an array a \<^verbatim>\<open>list\<close>.\<close>

fun json_loads :: "json \<Rightarrow> pyval" where
  "json_loads JNull = PNone"
| "json_loads (JBool b) = PBool b"
| "json_loads (JInt i) = PInt i"
| "json_loads (JString s) = PStr s"
| "json_loads (JArray xs) = PList (map json_loads xs)"
| "json_loads (JObject ms) = PDict (dict_of (map (\<lambda>m. (PStr (fst m), json_loads (snd m))) ms))"

text \<open>\<^verbatim>\<open>str.lower()\<close> on the ASCII letters; header values are ASCII.\<close>

definition lower_char :: "char \<Rightarrow> char" where
  "lower_char c =
     (case map_of (zip ''ABCDEFGHIJKLMNOPQRSTUVWXYZ'' ''abcdefghijklmnopqrstuvwxyz'') c of
        Some l \<Rightarrow> l
      | None \<Rightarrow> c)"

definition lower :: "string \<Rightarrow> string" where
  "lower s = map lower_char s"

definition startswith :: "string \<Rightarrow> string \<Rightarrow> bool" where
  "startswith s p = (take (length p) s = p)"

datatype event = Warning string | Call kwargs

text \<open>Lines 115--136.  The result is an exception, a response returned early, or
  \<^verbatim>\<open>kw\<close> (\<open>None\<close> while it is still \<^verbatim>\<open>None\<close>).\<close>

fun query_items :: "(string \<times> string list) list \<Rightarrow> kwargs \<Rightarrow> exn + kwargs" where
  "query_items [] kw = Inr kw"
| "query_items ((k, v) # rest) kw =
     (case v of
        [] \<Rightarrow> Inl IndexError
      | v0 # _ \<Rightarrow> query_items rest (AList.update k (Arg (PStr v0)) kw))"

definition members_kwargs :: "(string \<times> json) list \<Rightarrow> kwargs" where
  "members_kwargs ms = dict_of (map (\<lambda>m. (fst m, Arg (json_loads (snd m)))) ms)"

definition parse_post :: "request \<Rightarrow> exn + (response + kwargs option)" where
  "parse_post req =
     (case content_type req of
        None \<Rightarrow> Inr (Inl (HTTPBadRequest ''Missing Content-Type.''))
      | Some c \<Rightarrow>
          if c = [] then Inr (Inl (HTTPBadRequest ''Missing Content-Type.''))
          else let ct = lower c in
            if startswith ct ''application/json'' then
              (case json_body req of
                 Inl e \<Rightarrow> Inl e
               | Inr (JObject ms) \<Rightarrow> Inr (Inr (Some (members_kwargs ms)))
               | Inr _ \<Rightarrow> Inr (Inl (HTTPBadRequest ''JSON body must be object.'')))
            else if startswith ct ''application/x-www-form-urlencoded''
                    \<or> startswith ct ''multipart/form-data'' then
              (case post_body req of
                 Inl e \<Rightarrow> Inl e
               | Inr d \<Rightarrow> Inr (Inr (Some (map (\<lambda>(k, v). (k, Arg v)) d))))
            else Inr (Inl (HTTPBadRequest (''Unsupported Content-Type: '' @ c))))"

definition parse_get :: "request \<Rightarrow> exn + (response + kwargs option)" where
  "parse_get req =
     (if query_string req \<noteq> [] then
        (case query_items (parse_qs req) [] of
           Inl e \<Rightarrow> Inl e
         | Inr kw \<Rightarrow> Inr (Inr (Some kw)))
      else Inr (Inr None))"

definition parse_args :: "request_handler \<Rightarrow> request \<Rightarrow> exn + (response + kwargs option)" where
  "parse_args h req =
     (if h_has_var_kwarg h \<or> h_has_named_kwargs h \<or> h_required_kwargs h \<noteq> [] then
        (if req_method req = ''POST'' then parse_post req
         else if req_method req = ''GET'' then parse_get req
         else Inr (Inr None))
      else Inr (Inr None))"

text \<open>Lines 140--145: keep the named parameters that the mapping has.\<close>

fun filter_named :: "string list \<Rightarrow> kwargs \<Rightarrow> kwargs \<Rightarrow> kwargs" where
  "filter_named [] kw new_kw = new_kw"
| "filter_named (name # names) kw new_kw =
     (case map_of kw name of
        Some v \<Rightarrow> filter_named names kw (AList.update name v new_kw)
      | None \<Rightarrow> filter_named names kw new_kw)"

text \<open>Lines 146--149: write the path parameters over the mapping, warning at each key
  that is already there.\<close>

fun overlay :: "(string \<times> string) list \<Rightarrow> event list \<times> kwargs \<Rightarrow> event list \<times> kwargs" where
  "overlay [] (log, kw) = (log, kw)"
| "overlay ((k, v) # rest) (log, kw) =
     overlay rest
       ((if has_key kw k
         then log @ [Warning (''Duplicate arg name in named arg and kw args: '' @ k)]
         else log),
        AList.update k (Arg (PStr v)) kw)"

definition merge_args :: "request_handler \<Rightarrow> request \<Rightarrow> kwargs option \<Rightarrow> event list \<times> kwargs" where
  "merge_args h req kwo =
     (case kwo of
        None \<Rightarrow> ([], map (\<lambda>(k, v). (k, Arg (PStr v))) (dict_of (match_info req)))
      | Some kw \<Rightarrow>
          overlay (dict_of (match_info req))
            ([], if \<not> h_has_var_kwarg h \<and> h_named_kwargs h \<noteq> []
                 then filter_named (h_named_kwargs h) kw []
                 else kw))"

text \<open>Lines 150--151.\<close>

definition inject_request :: "request_handler \<Rightarrow> request \<Rightarrow> kwargs \<Rightarrow> kwargs" where
  "inject_request h req kw =
     (if h_has_request_arg h then AList.update ''request'' (RequestArg req) kw else kw)"

text \<open>Lines 152--155: the first required name that the mapping lacks.\<close>

fun missing_required :: "string list \<Rightarrow> kwargs \<Rightarrow> string option" where
  "missing_required [] kw = None"
| "missing_required (name # names) kw =
     (if \<not> has_key kw name then Some name else missing_required names kw)"

text \<open>The mapping as it stands before line 152: an exception, an early response, or
  the warnings so far and the mapping.\<close>

definition build_kw :: "request_handler \<Rightarrow> request \<Rightarrow> exn + (response + event list \<times> kwargs)" where
  "build_kw h req =
     (case parse_args h req of
        Inl e \<Rightarrow> Inl e
      | Inr (Inl resp) \<Rightarrow> Inr (Inl resp)
      | Inr (Inr kwo) \<Rightarrow>
          (case merge_args h req kwo of
             (log, kw) \<Rightarrow> Inr (Inr (log, inject_request h req kw))))"

text \<open>Lines 157--161.\<close>

definition invoke :: "request_handler \<Rightarrow> kwargs \<Rightarrow> exn + retval" where
  "invoke h kw =
     (case call (h_func h) kw of
        Return r \<Rightarrow> Inr r
      | Raise_APIError e d m \<Rightarrow>
          Inr (Value (PDict [(PStr ''error'', e), (PStr ''data'', d), (PStr ''message'', m)]))
      | Raise e \<Rightarrow> Inl e)"

definition RequestHandler_call :: "request_handler \<Rightarrow> request \<Rightarrow> event list \<times> (exn + retval)" where
  "RequestHandler_call h req =
     (case build_kw h req of
        Inl e \<Rightarrow> ([], Inl e)
      | Inr (Inl resp) \<Rightarrow> ([], Inr (Stream resp))
      | Inr (Inr (log, kw)) \<Rightarrow>
          (case missing_required (h_required_kwargs h) kw of
             Some name \<Rightarrow> (log, Inr (Stream (HTTPBadRequest (''Missing argument: '' @ name))))
           | None \<Rightarrow> (log @ [Call kw], invoke h kw)))"


section \<open>The response coercer (\<^verbatim>\<open>response_factory\<close>, lines 218--257)\<close>

text \<open>\<^verbatim>\<open>str(n)\<close> for an integer: decimal digits, with a minus sign below zero.\<close>

definition digit_char :: "nat \<Rightarrow> char" where
  "digit_char d = ''0123456789'' ! d"

function digits :: "nat \<Rightarrow> string" where
  "digits n = (if n < 10 then [digit_char n] else digits (n div 10) @ [digit_char (n mod 10)])"
  by pat_completeness auto
termination
  by (relation "measure id") auto

declare digits.simps [simp del]

definition str_int :: "int \<Rightarrow> string" where
  "str_int i = (if i < 0 then CHR ''-'' # digits (nat (- i)) else digits (nat i))"

text \<open>\<^verbatim>\<open>str(v)\<close>.  The text that Python's built-in \<^verbatim>\<open>repr\<close> gives \<^verbatim>\<open>bytes\<close>
  and the containers is a parameter.\<close>

fun py_str :: "(pyval \<Rightarrow> string) \<Rightarrow> pyval \<Rightarrow> string" where
  "py_str py_repr PNone = ''None''"
| "py_str py_repr (PBool b) = (if b then ''True'' else ''False'')"
| "py_str py_repr (PInt i) = str_int i"
| "py_str py_repr (PStr s) = s"
| "py_str py_repr (PObject s d) = s"
| "py_str py_repr v = py_repr v"

text \<open>\<^verbatim>\<open>isinstance(v, int)\<close> holds of integers and of booleans, which count 1 and 0.\<close>

fun as_int :: "pyval \<Rightarrow> int option" where
  "as_int (PInt i) = Some i"
| "as_int (PBool b) = Some (if b then 1 else 0)"
| "as_int v = None"

text \<open>
  \<^verbatim>\<open>json.dumps(r, ensure_ascii=False, default=lambda o: o.__dict__)\<close> on the level of
  documents.  A \<^verbatim>\<open>list\<close> and a \<^verbatim>\<open>tuple\<close> become an array; a key of a
  \<^verbatim>\<open>dict\<close> that is an integer, a boolean or \<^verbatim>\<open>None\<close> becomes its text and any
  other key that is not a \<^verbatim>\<open>str\<close> raises \<^verbatim>\<open>TypeError\<close>; a value of another class
  goes through \<^verbatim>\<open>default\<close>, which raises \<^verbatim>\<open>AttributeError\<close> when there is no
  \<^verbatim>\<open>__dict__\<close>.
\<close>

fun json_key :: "pyval \<Rightarrow> exn + string" where
  "json_key (PStr s) = Inr s"
| "json_key (PBool b) = Inr (if b then ''true'' else ''false'')"
| "json_key PNone = Inr ''null''"
| "json_key (PInt i) = Inr (str_int i)"
| "json_key v = Inl (TypeError ''keys must be str, int, float, bool or None'')"

fun json_dumps :: "pyval \<Rightarrow> exn + json"
  and json_dumps_list :: "pyval list \<Rightarrow> exn + json list"
  and json_dumps_items :: "(pyval \<times> pyval) list \<Rightarrow> exn + (string \<times> json) list"
  and json_dumps_attrs :: "(string \<times> pyval) list \<Rightarrow> exn + (string \<times> json) list" where
  "json_dumps PNone = Inr JNull"
| "json_dumps (PBool b) = Inr (JBool b)"
| "json_dumps (PInt i) = Inr (JInt i)"
| "json_dumps (PStr s) = Inr (JString s)"
| "json_dumps (PBytes b) = Inl (AttributeError ''__dict__'')"
| "json_dumps (PList xs) =
     (case json_dumps_list xs of Inl e \<Rightarrow> Inl e | Inr js \<Rightarrow> Inr (JArray js))"
| "json_dumps (PTuple xs) =
     (case json_dumps_list xs of Inl e \<Rightarrow> Inl e | Inr js \<Rightarrow> Inr (JArray js))"
| "json_dumps (PDict kvs) =
     (case json_dumps_items kvs of Inl e \<Rightarrow> Inl e | Inr ms \<Rightarrow> Inr (JObject ms))"
| "json_dumps (PObject s None) = Inl (AttributeError ''__dict__'')"
| "json_dumps (PObject s (Some attrs)) =
     (case json_dumps_attrs attrs of Inl e \<Rightarrow> Inl e | Inr ms \<Rightarrow> Inr (JObject ms))"
| "json_dumps_list [] = Inr []"
| "json_dumps_list (x # xs) =
     (case json_dumps x of
        Inl e \<Rightarrow> Inl e
      | Inr j \<Rightarrow> (case json_dumps_list xs of Inl e \<Rightarrow> Inl e | Inr js \<Rightarrow> Inr (j # js)))"
| "json_dumps_items [] = Inr []"
| "json_dumps_items ((k, v) # kvs) =
     (case json_key k of
        Inl e \<Rightarrow> Inl e
      | Inr s \<Rightarrow>
          (case json_dumps v of
             Inl e \<Rightarrow> Inl e
           | Inr j \<Rightarrow>
               (case json_dumps_items kvs of Inl e \<Rightarrow> Inl e | Inr ms \<Rightarrow> Inr ((s, j) # ms))))"
| "json_dumps_attrs [] = Inr []"
| "json_dumps_attrs ((a, v) # avs) =
     (case json_dumps v of
        Inl e \<Rightarrow> Inl e
      | Inr j \<Rightarrow>
          (case json_dumps_attrs avs of Inl e \<Rightarrow> Inl e | Inr ms \<Rightarrow> Inr ((a, j) # ms)))"

text \<open>
  The coercer.  \<open>render\<close> stands for the templating collaborator,
  \<^verbatim>\<open>app['__templating__'].get_template(template).render(**r)\<close>, which may raise.
  A response records what the code passes to \<^verbatim>\<open>web.Response\<close> and the content type
  it sets afterwards.
\<close>

definition status_code :: "pyval \<Rightarrow> int option" where
  "status_code v =
     (case as_int v of Some i \<Rightarrow> if 100 \<le> i \<and> i < 600 then Some i else None | None \<Rightarrow> None)"

definition with_content_type :: "string \<Rightarrow> response \<Rightarrow> response" where
  "with_content_type ct res = res\<lparr>res_content_type := Some ct\<rparr>"

definition plain_text :: "(pyval \<Rightarrow> string) \<Rightarrow> pyval \<Rightarrow> response" where
  "plain_text py_repr r =
     with_content_type ''text/plain;charset=utf-8''
       (web_Response 200 (Some (Bytes (py_str py_repr r))) None)"

text \<open>Lines 248--256.\<close>

definition coerce_other :: "(pyval \<Rightarrow> string) \<Rightarrow> pyval \<Rightarrow> response" where
  "coerce_other py_repr r =
     (case status_code r of
        Some i \<Rightarrow> web_Response i None None
      | None \<Rightarrow>
          (case r of
             PTuple [t, m] \<Rightarrow>
               (case status_code t of
                  Some i \<Rightarrow> web_Response i None (Some (py_str py_repr m))
                | None \<Rightarrow> plain_text py_repr r)
           | _ \<Rightarrow> plain_text py_repr r))"

text \<open>Lines 238--247.\<close>

definition coerce_dict ::
  "(pyval \<Rightarrow> (pyval \<times> pyval) list \<Rightarrow> exn + string) \<Rightarrow> (pyval \<times> pyval) list \<Rightarrow> exn + response" where
  "coerce_dict render kvs =
     (let template = (case map_of kvs (PStr ''__template__'') of None \<Rightarrow> PNone | Some t \<Rightarrow> t) in
      if template = PNone then
        (case json_dumps (PDict kvs) of
           Inl e \<Rightarrow> Inl e
         | Inr j \<Rightarrow>
             Inr (with_content_type ''application/json;charset=utf-8''
                    (web_Response 200 (Some (Json_text j)) None)))
      else
        (case render template kvs of
           Inl e \<Rightarrow> Inl e
         | Inr html \<Rightarrow>
             Inr (with_content_type ''text/html;charset=utf-8''
                    (web_Response 200 (Some (Bytes html)) None))))"

definition response_factory ::
  "(pyval \<Rightarrow> (pyval \<times> pyval) list \<Rightarrow> exn + string) \<Rightarrow> (pyval \<Rightarrow> string) \<Rightarrow> retval \<Rightarrow> exn + response" where
  "response_factory render py_repr r =
     (case r of
        Stream res \<Rightarrow> Inr res
      | Value (PBytes b) \<Rightarrow>
          Inr (with_content_type ''application/octet-stream''
                 (web_Response 200 (Some (Bytes b)) None))
      | Value (PStr s) \<Rightarrow>
          if startswith s ''redirect:'' then Inr (HTTPFound (drop 9 s))
          else Inr (with_content_type ''text/html;charset=utf-8''
                      (web_Response 200 (Some (Bytes s)) None))
      | Value (PDict kvs) \<Rightarrow> coerce_dict render kvs
      | Value v \<Rightarrow> Inr (coerce_other py_repr v))"

text \<open>A request through the handler and then the coercer, as the middleware chains them:
  \<^verbatim>\<open>r = await handler(request)\<close>.\<close>

definition serve ::
  "(pyval \<Rightarrow> (pyval \<times> pyval) list \<Rightarrow> exn + string) \<Rightarrow> (pyval \<Rightarrow> string) \<Rightarrow>
   request_handler \<Rightarrow> request \<Rightarrow> exn + response" where
  "serve render py_repr h req =
     (case snd (RequestHandler_call h req) of
        Inl e \<Rightarrow> Inl e
      | Inr r \<Rightarrow> response_factory render py_repr r)"


section \<open>Database operations (aioweb/orm.py, lines 38--87)\<close>

text \<open>
  The connection pool is the external collaborator.  A pool is modelled by what its
  cursors answer: \<open>db_execute\<close> is the outcome of \<^verbatim>\<open>cur.execute\<close> in \<open>execute\<close> (an
  exception or \<^verbatim>\<open>cur.rowcount\<close>), \<open>db_select\<close> the one in \<open>select\<close> (an exception or
  the rows of the result).  The operations on the connection are recorded in a trace;
  acquiring, releasing, \<^verbatim>\<open>begin\<close>, \<^verbatim>\<open>commit\<close> and \<^verbatim>\<open>rollback\<close> are taken to
  succeed.  The module's global \<^verbatim>\<open>__pool\<close> is an argument, \<open>None\<close> before
  \<^verbatim>\<open>create_pool\<close>.
\<close>

type_synonym row = "(string \<times> pyval) list"

record pool =
  db_execute :: "string \<Rightarrow> pyval list \<Rightarrow> exn + int"
  db_select :: "string \<Rightarrow> pyval list \<Rightarrow> exn + row list"

datatype db_op =
  Acquire | Begin | Execute string "pyval list" | Commit | Rollback | Release

text \<open>\<^verbatim>\<open>sql.replace('?', '%s')\<close>\<close>

definition replace_placeholders :: "string \<Rightarrow> string" where
  "replace_placeholders sql = concat (map (\<lambda>c. if c = CHR ''?'' then ''%s'' else [c]) sql)"

text \<open>\<^verbatim>\<open>except custom_errors.SqlExecutionError:\<close>\<close>

fun is_SqlExecutionError :: "exn \<Rightarrow> bool" where
  "is_SqlExecutionError (SqlExecutionError m) = True"
| "is_SqlExecutionError e = False"

definition select :: "pool option \<Rightarrow> string \<Rightarrow> pyval list \<Rightarrow> nat option \<Rightarrow> db_op list \<times> (exn + row list)" where
  "select pl sql args sz =
     (case pl of
        None \<Rightarrow> ([], Inl (PoolNotFoundError ''Connection pool is NoneType.''))
      | Some p \<Rightarrow>
          (case db_select p (replace_placeholders sql) args of
             Inl e \<Rightarrow> ([Acquire, Execute (replace_placeholders sql) args, Release], Inl e)
           | Inr rows \<Rightarrow>
               ([Acquire, Execute (replace_placeholders sql) args, Release],
                Inr (case sz of
                       None \<Rightarrow> rows
                     | Some n \<Rightarrow> if n \<noteq> 0 then take n rows else rows))))"

definition execute :: "pool option \<Rightarrow> string \<Rightarrow> pyval list \<Rightarrow> bool \<Rightarrow> db_op list \<times> (exn + int)" where
  "execute pl sql args autocommit =
     (case pl of
        None \<Rightarrow> ([], Inl (PoolNotFoundError ''Connection pool is NoneType.''))
      | Some p \<Rightarrow>
          (let started = [Acquire] @ (if \<not> autocommit then [Begin] else [])
                         @ [Execute (replace_placeholders sql) args]
           in case db_execute p (replace_placeholders sql) args of
                Inr affected \<Rightarrow>
                  (started @ (if \<not> autocommit then [Commit] else []) @ [Release], Inr affected)
              | Inl e \<Rightarrow>
                  if is_SqlExecutionError e
                  then (started @ (if \<not> autocommit then [Rollback] else []) @ [Release], Inl e)
                  else (started @ [Release], Inl e)))"

section \<open>Entity classes (\<^verbatim>\<open>ModelMetaClass.__new__\<close>, lines 83--172)\<close>















section \<open>Notions used in the statements\<close>

text \<open>Some parameter named \<^verbatim>\<open>request\<close> is followed, later in the signature, by a
  parameter of another name that satisfies \<open>P\<close>.\<close>

fun request_followed_by :: "(param \<Rightarrow> bool) \<Rightarrow> signature \<Rightarrow> bool" where
  "request_followed_by P [] = False"
| "request_followed_by P (p # ps) =
     (if pname p = ''request''
      then list_ex (\<lambda>q. pname q \<noteq> ''request'' \<and> P q) ps \<or> request_followed_by P ps
      else request_followed_by P ps)"

text \<open>The kinds that the loop of \<open>has_request_arg\<close> refuses after \<^verbatim>\<open>request\<close>: the
  parameters that can be passed by position.\<close>

definition positional :: "param \<Rightarrow> bool" where
  "positional p = (kind p = POSITIONAL_ONLY \<or> kind p = POSITIONAL_OR_KEYWORD)"

text \<open>In the words of the specification: a non-variadic named parameter is any parameter
  but \<^verbatim>\<open>*args\<close> and \<^verbatim>\<open>**kwargs\<close>; the keyword-only parameters, which the
  specification calls the named parameters, are among them.\<close>

definition nonvariadic_named :: "param \<Rightarrow> bool" where
  "nonvariadic_named p = (kind p \<noteq> VAR_POSITIONAL \<and> kind p \<noteq> VAR_KEYWORD)"

text \<open>In the words of the specification: a two-element sequence, with its two elements.
  Python's sequences of two arbitrary elements are the \<^verbatim>\<open>tuple\<close> and the
  \<^verbatim>\<open>list\<close>.\<close>

fun two_element_sequence :: "pyval \<Rightarrow> (pyval \<times> pyval) option" where
  "two_element_sequence (PTuple [t, m]) = Some (t, m)"
| "two_element_sequence (PList [t, m]) = Some (t, m)"
| "two_element_sequence v = None"





section \<open>Signature inspection: required and named parameters\<close>

lemma get_required_kwargs_loop_filter:
  "get_required_kwargs_loop args ps =
     args @ map pname (filter (\<lambda>p. kind p = KEYWORD_ONLY \<and> \<not> has_default p) ps)"
  by (induction ps arbitrary: args) auto

lemma get_named_kwargs_loop_filter:
  "get_named_kwargs_loop args ps = args @ map pname (filter (\<lambda>p. kind p = KEYWORD_ONLY) ps)"
  by (induction ps arbitrary: args) auto

lemma map_of_filter_named:
  "map_of (filter_named names kw acc) n =
     (if n \<in> set names then (case map_of kw n of Some v \<Rightarrow> Some v | None \<Rightarrow> map_of acc n)
      else map_of acc n)"
  by (induction names arbitrary: acc) (auto simp: update_conv' split: option.splits)

text \<open>
  Claim C10.  The required named parameters that registration computes (the keyword-only
  parameters without a default) are among the named parameters (all keyword-only
  parameters); so the filtering step of the binder, which keeps the named parameters,
  keeps every required argument that the body or query mapping supplies, with its value.
\<close>

theorem required_kwargs_subset_named_kwargs:
  "set (get_required_kwargs ps) \<subseteq> set (get_named_kwargs ps) \<and>
   (\<forall>name \<in> set (get_required_kwargs ps). has_key kw name \<longrightarrow>
      map_of (filter_named (get_named_kwargs ps) kw []) name = map_of kw name)"
  by (auto simp: get_required_kwargs_def get_named_kwargs_def get_required_kwargs_loop_filter
      get_named_kwargs_loop_filter map_of_filter_named has_key_def)

theorem required_kwargs_subset_named_kwargs_witness:
  "get_required_kwargs
     [\<lparr>pname = ''request'', kind = POSITIONAL_OR_KEYWORD, has_default = False\<rparr>,
      \<lparr>pname = ''id'', kind = KEYWORD_ONLY, has_default = False\<rparr>,
      \<lparr>pname = ''page'', kind = KEYWORD_ONLY, has_default = True\<rparr>] = [''id''] \<and>
   has_key [(''x'', Arg (PStr ''1'')), (''id'', Arg (PStr ''7''))] ''id'' \<and>
   map_of (filter_named
       (get_named_kwargs
          [\<lparr>pname = ''request'', kind = POSITIONAL_OR_KEYWORD, has_default = False\<rparr>,
           \<lparr>pname = ''id'', kind = KEYWORD_ONLY, has_default = False\<rparr>,
           \<lparr>pname = ''page'', kind = KEYWORD_ONLY, has_default = True\<rparr>])
       [(''x'', Arg (PStr ''1'')), (''id'', Arg (PStr ''7''))] []) ''id''
     = Some (Arg (PStr ''7''))"
  using required_kwargs_subset_named_kwargs
    [of "[\<lparr>pname = ''request'', kind = POSITIONAL_OR_KEYWORD, has_default = False\<rparr>,
          \<lparr>pname = ''id'', kind = KEYWORD_ONLY, has_default = False\<rparr>,
          \<lparr>pname = ''page'', kind = KEYWORD_ONLY, has_default = True\<rparr>]"
        "[(''x'', Arg (PStr ''1'')), (''id'', Arg (PStr ''7''))]"]
  by (simp add: get_required_kwargs_def has_key_def)

section \<open>Registration: the place of the request parameter\<close>

lemma has_request_arg_loop_eq:
  "has_request_arg_loop msg found ps =
     (if (found \<and> list_ex (\<lambda>q. pname q \<noteq> ''request'' \<and> positional q) ps)
         \<or> request_followed_by positional ps
      then Inl (ValueError msg)
      else Inr (found \<or> ''request'' \<in> pname ` set ps))"
  by (induction ps arbitrary: found)
     (auto simp: positional_def list_ex_iff intro: param_kind.exhaust)

text \<open>
  Claim C7, as amended.  Constructing the \<^verbatim>\<open>RequestHandler\<close> of a function raises
  \<^verbatim>\<open>ValueError\<close>, at registration, exactly when a parameter named \<^verbatim>\<open>request\<close> is
  followed by a positional parameter (positional-only or positional-or-keyword).  In
  every other case, also when keyword-only parameters, \<^verbatim>\<open>*args\<close> or
  \<^verbatim>\<open>**kwargs\<close> follow it, the handler is constructed and records whether the
  function has a parameter named \<^verbatim>\<open>request\<close>.
\<close>

theorem registration_request_position:
  "(request_followed_by positional (params f) \<longrightarrow>
      (\<exists>msg. RequestHandler_init f = Inl (ValueError msg))) \<and>
   (\<not> request_followed_by positional (params f) \<longrightarrow>
      (\<exists>h. RequestHandler_init f = Inr h \<and> h_func h = f \<and>
           h_has_request_arg h = (''request'' \<in> pname ` set (params f))))"
  by (simp add: RequestHandler_init_def has_request_arg_def has_request_arg_loop_eq)

theorem registration_request_position_witness:
  "request_followed_by positional
     [\<lparr>pname = ''request'', kind = POSITIONAL_OR_KEYWORD, has_default = False\<rparr>,
      \<lparr>pname = ''id'', kind = POSITIONAL_OR_KEYWORD, has_default = False\<rparr>] \<and>
   (\<exists>msg. RequestHandler_init
      \<lparr>fname = ''h'', sig_str = ''(request, id)'',
       params = [\<lparr>pname = ''request'', kind = POSITIONAL_OR_KEYWORD, has_default = False\<rparr>,
                 \<lparr>pname = ''id'', kind = POSITIONAL_OR_KEYWORD, has_default = False\<rparr>],
       call = (\<lambda>kw. Return (Value PNone))\<rparr> = Inl (ValueError msg)) \<and>
   \<not> request_followed_by positional
     [\<lparr>pname = ''id'', kind = POSITIONAL_OR_KEYWORD, has_default = False\<rparr>,
      \<lparr>pname = ''request'', kind = POSITIONAL_OR_KEYWORD, has_default = False\<rparr>] \<and>
   (\<exists>h. RequestHandler_init
      \<lparr>fname = ''h'', sig_str = ''(id, request)'',
       params = [\<lparr>pname = ''id'', kind = POSITIONAL_OR_KEYWORD, has_default = False\<rparr>,
                 \<lparr>pname = ''request'', kind = POSITIONAL_OR_KEYWORD, has_default = False\<rparr>],
       call = (\<lambda>kw. Return (Value PNone))\<rparr> = Inr h \<and> h_has_request_arg h)"
  using registration_request_position
    [of "\<lparr>fname = ''h'', sig_str = ''(request, id)'',
       params = [\<lparr>pname = ''request'', kind = POSITIONAL_OR_KEYWORD, has_default = False\<rparr>,
                 \<lparr>pname = ''id'', kind = POSITIONAL_OR_KEYWORD, has_default = False\<rparr>],
       call = (\<lambda>kw. Return (Value PNone))\<rparr>"]
    registration_request_position
    [of "\<lparr>fname = ''h'', sig_str = ''(id, request)'',
       params = [\<lparr>pname = ''id'', kind = POSITIONAL_OR_KEYWORD, has_default = False\<rparr>,
                 \<lparr>pname = ''request'', kind = POSITIONAL_OR_KEYWORD, has_default = False\<rparr>],
       call = (\<lambda>kw. Return (Value PNone))\<rparr>"]
  by (auto simp: positional_def)

text \<open>
  Claim C7 as the specification states it fails: in \<^verbatim>\<open>async def h(request, *, id)\<close>
  the parameter \<^verbatim>\<open>request\<close> is followed by the non-variadic named parameter
  \<^verbatim>\<open>id\<close>, and the handler is constructed all the same.
\<close>

theorem registration_keyword_only_after_request_counterexample:
  "request_followed_by nonvariadic_named
     [\<lparr>pname = ''request'', kind = POSITIONAL_OR_KEYWORD, has_default = False\<rparr>,
      \<lparr>pname = ''id'', kind = KEYWORD_ONLY, has_default = False\<rparr>] \<and>
   (case RequestHandler_init
      \<lparr>fname = ''h'', sig_str = ''(request, *, id)'',
       params = [\<lparr>pname = ''request'', kind = POSITIONAL_OR_KEYWORD, has_default = False\<rparr>,
                 \<lparr>pname = ''id'', kind = KEYWORD_ONLY, has_default = False\<rparr>],
       call = (\<lambda>kw. Return (Value PNone))\<rparr> of
      Inl e \<Rightarrow> False
    | Inr h \<Rightarrow> h_has_request_arg h \<and> h_required_kwargs h = [''id''])"
  by (simp add: nonvariadic_named_def RequestHandler_init_def has_request_arg_def
      get_required_kwargs_def)

section \<open>The coercer on status codes\<close>

text \<open>
  Claim C2, as amended.  An integer \<open>i\<close> with \<open>100 \<le> i < 600\<close> is coerced to a response
  of status \<open>i\<close> with no body.  A two-element \<^verbatim>\<open>tuple\<close> whose first element is an
  integer \<open>t\<close> with \<open>100 \<le> t < 600\<close> is coerced to a response of status \<open>t\<close> whose text
  is \<^verbatim>\<open>str\<close> of the second element; so \<^verbatim>\<open>(404, "not found")\<close> gives status 404
  with the text \<^verbatim>\<open>not found\<close>.  A two-element \<^verbatim>\<open>list\<close> is not taken for a status
  and a message: it is written out as \<^verbatim>\<open>text/plain\<close> with status 200.
\<close>

theorem status_code_coercion:
  "(100 \<le> i \<and> i < 600 \<longrightarrow>
      response_factory render py_repr (Value (PInt i)) =
        Inr \<lparr>status = i, body = None, res_text = None, res_content_type = None, location = None\<rparr>) \<and>
   (100 \<le> t \<and> t < 600 \<longrightarrow>
      response_factory render py_repr (Value (PTuple [PInt t, m])) =
        Inr \<lparr>status = t, body = None, res_text = Some (py_str py_repr m),
             res_content_type = None, location = None\<rparr>) \<and>
   response_factory render py_repr (Value (PTuple [PInt 404, PStr ''not found''])) =
     Inr \<lparr>status = 404, body = None, res_text = Some ''not found'',
          res_content_type = None, location = None\<rparr> \<and>
   response_factory render py_repr (Value (PList [a, b])) =
     Inr \<lparr>status = 200, body = Some (Bytes (py_repr (PList [a, b]))), res_text = None,
          res_content_type = Some ''text/plain;charset=utf-8'', location = None\<rparr>"
  by (simp add: response_factory_def coerce_other_def status_code_def web_Response_def
      plain_text_def with_content_type_def)

theorem status_code_coercion_witness:
  "response_factory (\<lambda>t kvs. Inl (OtherError [])) (\<lambda>v. []) (Value (PInt 204)) =
     Inr \<lparr>status = 204, body = None, res_text = None, res_content_type = None, location = None\<rparr> \<and>
   response_factory (\<lambda>t kvs. Inl (OtherError [])) (\<lambda>v. []) (Value (PTuple [PInt 500, PInt 7])) =
     Inr \<lparr>status = 500, body = None, res_text = Some ''7'',
          res_content_type = None, location = None\<rparr>"
  using status_code_coercion [of 204 "\<lambda>t kvs. Inl (OtherError [])" "\<lambda>v. []" 500 "PInt 7"]
  by (simp add: str_int_def digits.simps digit_char_def)

text \<open>
  Claim C2 as the specification states it fails on a sequence that is not a tuple: the
  list \<^verbatim>\<open>[404, "not found"]\<close> is a two-element sequence whose first element is an
  integer in the range, and its response has status 200.
\<close>

theorem two_element_list_counterexample:
  "two_element_sequence (PList [PInt 404, PStr ''not found'']) = Some (PInt 404, PStr ''not found'') \<and>
   (\<forall>render py_repr.
      response_factory render py_repr (Value (PList [PInt 404, PStr ''not found''])) =
        Inr \<lparr>status = 200, body = Some (Bytes (py_repr (PList [PInt 404, PStr ''not found'']))),
             res_text = None, res_content_type = Some ''text/plain;charset=utf-8'',
             location = None\<rparr>)"
  by (simp add: response_factory_def coerce_other_def status_code_def web_Response_def
      plain_text_def with_content_type_def)

section \<open>Content negotiation on POST\<close>







section \<open>Dictionaries and the merge step\<close>

lemma map_of_fold_update:
  "map_of (fold (\<lambda>(k, v) d. AList.update k (f v) d) items acc) k =
     (case map_of (rev items) k of Some v \<Rightarrow> Some (f v) | None \<Rightarrow> map_of acc k)"
  by (induction items arbitrary: acc) (auto simp: update_conv' split: option.splits)

lemma distinct_fold_update:
  "distinct (map fst acc) \<Longrightarrow>
   distinct (map fst (fold (\<lambda>(k, v) d. AList.update k (f v) d) items acc))"
  by (induction items arbitrary: acc) (auto simp: distinct_update)

lemma keys_fold_update:
  "fst ` set (fold (\<lambda>(k, v) d. AList.update k (f v) d) items acc) = fst ` set acc \<union> fst ` set items"
proof (induction items arbitrary: acc)
  case Nil
  then show ?case by simp
next
  case (Cons a items)
  obtain k v where a: "a = (k, v)" by (cases a)
  have "fst ` set (AList.update k (f v) acc) = insert k (fst ` set acc)"
    by (simp add: dom_update)
  then show ?case using Cons.IH [of "AList.update k (f v) acc"] a by auto
qed

lemma distinct_dict_of: "distinct (map fst (dict_of items))"
  using distinct_fold_update [of "[]" "\<lambda>v. v" items] by (simp add: dict_of_def)

lemma map_of_dict_of: "map_of (dict_of items) k = map_of (rev items) k"
  using map_of_fold_update [of "\<lambda>v. v" items "[]" k]
  by (simp add: dict_of_def split: option.splits)

lemma keys_dict_of: "fst ` set (dict_of items) = fst ` set items"
  using keys_fold_update [of "\<lambda>v. v" items "[]"] by (simp add: dict_of_def)

lemma snd_overlay:
  "snd (overlay m (log, kw)) = fold (\<lambda>(k, v) d. AList.update k (Arg (PStr v)) d) m kw"
  by (induction m arbitrary: log kw) auto

lemma has_key_update: "has_key (AList.update k v d) k' = (k' = k \<or> has_key d k')"
  by (simp add: has_key_def update_conv')

lemma fst_overlay:
  "distinct (map fst m) \<Longrightarrow>
   fst (overlay m (log, kw)) =
     log @ map (\<lambda>kv. Warning (''Duplicate arg name in named arg and kw args: '' @ fst kv))
             (filter (\<lambda>kv. has_key kw (fst kv)) m)"
proof (induction m arbitrary: log kw)
  case Nil
  then show ?case by simp
next
  case (Cons a m)
  obtain k v where a: "a = (k, v)" by (cases a)
  have "filter (\<lambda>kv. has_key (AList.update k (Arg (PStr v)) kw) (fst kv)) m
      = filter (\<lambda>kv. has_key kw (fst kv)) m"
    using Cons.prems a by (intro filter_cong) (auto simp: has_key_update)
  then show ?case using Cons a by simp
qed

lemma map_of_rev_distinct:
  assumes "distinct (map fst xs)"
  shows "map_of (rev xs) = map_of xs"
proof -
  have "distinct (map fst (rev xs))"
    using assms by (simp add: rev_map [symmetric])
  then show ?thesis
    using assms by (simp add: map_of_inject_set)
qed

lemma map_of_overlay:
  "distinct (map fst m) \<Longrightarrow>
   map_of (snd (overlay m (log, kw))) k =
     (case map_of m k of Some v \<Rightarrow> Some (Arg (PStr v)) | None \<Rightarrow> map_of kw k)"
  by (simp add: snd_overlay map_of_fold_update map_of_rev_distinct)

section \<open>Missing required arguments\<close>

lemma map_of_inject_request:
  "map_of (inject_request h req kw) k =
     (if h_has_request_arg h \<and> k = ''request'' then Some (RequestArg req) else map_of kw k)"
  by (simp add: inject_request_def update_conv')

lemma map_of_eq_None_keys: "(map_of m k = None) = (k \<notin> fst ` set m)"
  by (simp add: map_of_eq_None_iff)

lemma missing_required_None: "(missing_required names kw = None) = (\<forall>n \<in> set names. has_key kw n)"
  by (induction names) auto

lemma missing_required_Some:
  "missing_required names kw = Some name \<Longrightarrow>
   \<exists>pre post. names = pre @ name # post \<and> (\<forall>n \<in> set pre. has_key kw n) \<and> \<not> has_key kw name"
proof (induction names)
  case Nil
  then show ?case by simp
next
  case (Cons a names)
  show ?case
  proof (cases "has_key kw a")
    case True
    with Cons obtain pre post where
      "names = pre @ name # post" "\<forall>n \<in> set pre. has_key kw n" "\<not> has_key kw name"
      by auto
    with True have "a # names = (a # pre) @ name # post \<and> (\<forall>n \<in> set (a # pre). has_key kw n)
        \<and> \<not> has_key kw name"
      by simp
    then show ?thesis by blast
  next
    case False
    with Cons.prems have "a # names = [] @ name # names \<and> (\<forall>n \<in> set []. has_key kw n)
        \<and> \<not> has_key kw name"
      by simp
    then show ?thesis by blast
  qed
qed

lemma merge_args_log:
  "Call kw' \<notin> set log" if "merge_args h req kwo = (log, kw)"
proof (cases kwo)
  case None
  then show ?thesis using that by (simp add: merge_args_def)
next
  case (Some kw0)
  then have "log = fst (overlay (dict_of (match_info req))
      ([], if \<not> h_has_var_kwarg h \<and> h_named_kwargs h \<noteq> []
           then filter_named (h_named_kwargs h) kw0 [] else kw0))"
    using that by (auto simp: merge_args_def dest: arg_cong [where f = fst])
  then show ?thesis
    by (auto simp: fst_overlay distinct_dict_of)
qed

lemma build_kw_log:
  "build_kw h req = Inr (Inr (log, kw)) \<Longrightarrow> Call kw' \<notin> set log"
  by (auto simp: build_kw_def split: sum.splits prod.splits dest: merge_args_log)

lemma serve_missing:
  "build_kw h req = Inr (Inr (log, kw)) \<Longrightarrow> missing_required (h_required_kwargs h) kw = Some name \<Longrightarrow>
   RequestHandler_call h req = (log, Inr (Stream (HTTPBadRequest (''Missing argument: '' @ name)))) \<and>
   serve render py_repr h req = Inr (HTTPBadRequest (''Missing argument: '' @ name))"
  by (simp add: serve_def RequestHandler_call_def response_factory_def)

lemma has_key_merge_args:
  assumes "merge_args h req kwo = (log, kw)"
    and "k \<notin> fst ` set (match_info req)"
    and "case kwo of None \<Rightarrow> True | Some kw0 \<Rightarrow> \<not> has_key kw0 k"
  shows "\<not> has_key kw k"
proof (cases kwo)
  case None
  with assms(1) have "kw = map (\<lambda>(k, v). (k, Arg (PStr v))) (dict_of (match_info req))"
    by (simp add: merge_args_def)
  then have "fst ` set kw = fst ` set (dict_of (match_info req))"
    by (simp add: image_image case_prod_unfold)
  then have "fst ` set kw = fst ` set (match_info req)"
    by (simp add: keys_dict_of)
  with assms(2) show ?thesis
    by (simp add: has_key_def map_of_eq_None_keys)
next
  case (Some kw0)
  let ?base = "if \<not> h_has_var_kwarg h \<and> h_named_kwargs h \<noteq> []
               then filter_named (h_named_kwargs h) kw0 [] else kw0"
  from Some assms(3) have "map_of kw0 k = None" by (simp add: has_key_def)
  then have base: "map_of ?base k = None"
    by (simp add: map_of_filter_named)
  from Some assms(1) have "kw = snd (overlay (dict_of (match_info req)) ([], ?base))"
    by (auto simp: merge_args_def dest: arg_cong [where f = snd])
  moreover have "map_of (dict_of (match_info req)) k = None"
    using assms(2) by (simp add: map_of_eq_None_keys keys_dict_of)
  ultimately have "map_of kw k = None"
    using base by (simp add: map_of_overlay distinct_dict_of)
  then show ?thesis by (simp add: has_key_def)
qed

text \<open>
  Claim C4.  When the mapping of call arguments is built (filtered, overlaid with the path
  parameters, the request injected) and some required named parameter is not among its
  keys, the handler is not called and the response is 400 with the text
  \<^verbatim>\<open>Missing argument: \<close> followed by that name, the first one missing in the order of
  the signature.  In particular a handler whose one required named parameter is
  \<^verbatim>\<open>id\<close>, asked with no path parameter \<^verbatim>\<open>id\<close> and no body or query field
  \<^verbatim>\<open>id\<close>, answers 400 with \<^verbatim>\<open>Missing argument: id\<close>.
\<close>

theorem missing_argument_bad_request:
  "(build_kw h req = Inr (Inr (log, kw)) \<and> (\<exists>name \<in> set (h_required_kwargs h). \<not> has_key kw name) \<longrightarrow>
      (\<exists>pre name post.
          h_required_kwargs h = pre @ name # post \<and> (\<forall>n \<in> set pre. has_key kw n) \<and>
          \<not> has_key kw name \<and>
          RequestHandler_call h req =
            (log, Inr (Stream (HTTPBadRequest (''Missing argument: '' @ name)))) \<and>
          (\<forall>kw'. Call kw' \<notin> set log) \<and>
          serve render py_repr h req = Inr (HTTPBadRequest (''Missing argument: '' @ name)) \<and>
          status (HTTPBadRequest (''Missing argument: '' @ name)) = 400)) \<and>
   (h_required_kwargs h = [''id''] \<and> ''id'' \<notin> fst ` set (match_info req) \<and>
    parse_args h req = Inr (Inr kwo) \<and>
    (case kwo of None \<Rightarrow> True | Some kw0 \<Rightarrow> \<not> has_key kw0 ''id'') \<longrightarrow>
      serve render py_repr h req = Inr (HTTPBadRequest ''Missing argument: id''))"
proof (intro conjI impI)
  assume a: "build_kw h req = Inr (Inr (log, kw)) \<and>
      (\<exists>name \<in> set (h_required_kwargs h). \<not> has_key kw name)"
  then have "missing_required (h_required_kwargs h) kw \<noteq> None"
    by (simp add: missing_required_None)
  then obtain name where m: "missing_required (h_required_kwargs h) kw = Some name"
    by blast
  from missing_required_Some [OF m] obtain pre post where
    p: "h_required_kwargs h = pre @ name # post" "\<forall>n \<in> set pre. has_key kw n" "\<not> has_key kw name"
    by blast
  from a have b: "build_kw h req = Inr (Inr (log, kw))" by simp
  have "\<forall>kw'. Call kw' \<notin> set log"
    using build_kw_log [OF b] by blast
  moreover have "status (HTTPBadRequest (''Missing argument: '' @ name)) = 400"
    by (simp add: HTTPBadRequest_def)
  ultimately show "\<exists>pre name post.
          h_required_kwargs h = pre @ name # post \<and> (\<forall>n \<in> set pre. has_key kw n) \<and>
          \<not> has_key kw name \<and>
          RequestHandler_call h req =
            (log, Inr (Stream (HTTPBadRequest (''Missing argument: '' @ name)))) \<and>
          (\<forall>kw'. Call kw' \<notin> set log) \<and>
          serve render py_repr h req = Inr (HTTPBadRequest (''Missing argument: '' @ name)) \<and>
          status (HTTPBadRequest (''Missing argument: '' @ name)) = 400"
    using p serve_missing [OF b m] by blast
next
  assume a: "h_required_kwargs h = [''id''] \<and> ''id'' \<notin> fst ` set (match_info req) \<and>
    parse_args h req = Inr (Inr kwo) \<and>
    (case kwo of None \<Rightarrow> True | Some kw0 \<Rightarrow> \<not> has_key kw0 ''id'')"
  obtain log kw where mk: "merge_args h req kwo = (log, kw)"
    by (cases "merge_args h req kwo")
  with a have b: "build_kw h req = Inr (Inr (log, inject_request h req kw))"
    by (simp add: build_kw_def)
  have "\<not> has_key kw ''id''"
    using has_key_merge_args [OF mk] a by blast
  then have "\<not> has_key (inject_request h req kw) ''id''"
    by (simp add: has_key_def map_of_inject_request)
  with a have "missing_required (h_required_kwargs h) (inject_request h req kw) = Some ''id''"
    by simp
  from serve_missing [OF b this]
  show "serve render py_repr h req = Inr (HTTPBadRequest ''Missing argument: id'')"
    by simp
qed


theorem missing_argument_bad_request_witness:
  "build_kw
     \<lparr>h_func = \<lparr>fname = ''get_blog'', sig_str = ''(*, id)'',
                 params = [\<lparr>pname = ''id'', kind = KEYWORD_ONLY, has_default = False\<rparr>],
                 call = (\<lambda>kw. Return (Value (PStr ''ok'')))\<rparr>,
      h_has_request_arg = False, h_has_var_kwarg = False, h_has_named_kwargs = True,
      h_named_kwargs = [''id''], h_required_kwargs = [''id'']\<rparr>
     \<lparr>req_method = ''GET'', content_type = None, json_body = Inr JNull, post_body = Inr [],
      query_string = ''x=1'', parse_qs = [(''x'', [''1''])], match_info = []\<rparr> = Inr (Inr ([], [])) \<and>
   \<not> has_key ([] :: kwargs) ''id'' \<and>
   RequestHandler_call
     \<lparr>h_func = \<lparr>fname = ''get_blog'', sig_str = ''(*, id)'',
                 params = [\<lparr>pname = ''id'', kind = KEYWORD_ONLY, has_default = False\<rparr>],
                 call = (\<lambda>kw. Return (Value (PStr ''ok'')))\<rparr>,
      h_has_request_arg = False, h_has_var_kwarg = False, h_has_named_kwargs = True,
      h_named_kwargs = [''id''], h_required_kwargs = [''id'']\<rparr>
     \<lparr>req_method = ''GET'', content_type = None, json_body = Inr JNull, post_body = Inr [],
      query_string = ''x=1'', parse_qs = [(''x'', [''1''])], match_info = []\<rparr> = ([], Inr (Stream (HTTPBadRequest ''Missing argument: id''))) \<and>
   serve (\<lambda>t kvs. Inl (OtherError [])) (\<lambda>v. [])
     \<lparr>h_func = \<lparr>fname = ''get_blog'', sig_str = ''(*, id)'',
                 params = [\<lparr>pname = ''id'', kind = KEYWORD_ONLY, has_default = False\<rparr>],
                 call = (\<lambda>kw. Return (Value (PStr ''ok'')))\<rparr>,
      h_has_request_arg = False, h_has_var_kwarg = False, h_has_named_kwargs = True,
      h_named_kwargs = [''id''], h_required_kwargs = [''id'']\<rparr>
     \<lparr>req_method = ''GET'', content_type = None, json_body = Inr JNull, post_body = Inr [],
      query_string = ''x=1'', parse_qs = [(''x'', [''1''])], match_info = []\<rparr> = Inr (HTTPBadRequest ''Missing argument: id'')"
  using missing_argument_bad_request
    [where h = "\<lparr>h_func = \<lparr>fname = ''get_blog'', sig_str = ''(*, id)'',
                 params = [\<lparr>pname = ''id'', kind = KEYWORD_ONLY, has_default = False\<rparr>],
                 call = (\<lambda>kw. Return (Value (PStr ''ok'')))\<rparr>,
      h_has_request_arg = False, h_has_var_kwarg = False, h_has_named_kwargs = True,
      h_named_kwargs = [''id''], h_required_kwargs = [''id'']\<rparr>"
       and req = "\<lparr>req_method = ''GET'', content_type = None, json_body = Inr JNull, post_body = Inr [],
      query_string = ''x=1'', parse_qs = [(''x'', [''1''])], match_info = []\<rparr>"
       and log = "[]" and kw = "[]" and kwo = "Some [(''x'', Arg (PStr ''1''))]"
       and render = "\<lambda>t kvs. Inl (OtherError [])" and py_repr = "\<lambda>v. []"]
  by (simp add: build_kw_def parse_args_def parse_get_def merge_args_def dict_of_def
      inject_request_def has_key_def RequestHandler_call_def)

section \<open>Filtering and the overlay of path parameters\<close>

lemma has_key_filter_named:
  "has_key (filter_named names kw []) k = (k \<in> set names \<and> has_key kw k)"
  by (auto simp: has_key_def map_of_filter_named split: option.splits)

text \<open>
  Claim C1, as amended.  When the binder has a mapping from the body or the query, the
  handler has no keyword catch-all and it declares named parameters, the mapping is
  filtered down to the declared names it has, and the path parameters are written on top:
  the final mapping has, at every key other than an injected \<^verbatim>\<open>request\<close>, the path
  parameter of that name if there is one and else the filtered value, and one warning is
  logged for each path parameter whose name is also a key of the filtered mapping.  At the
  key \<^verbatim>\<open>request\<close> of a handler that takes the request, the final mapping has the
  request object.
\<close>

theorem path_parameters_overlay:
  assumes "parse_args h req = Inr (Inr (Some kw0))"
    and "\<not> h_has_var_kwarg h" and "h_named_kwargs h \<noteq> []"
  shows "\<exists>kw. build_kw h req =
           Inr (Inr (map (\<lambda>kv. Warning (''Duplicate arg name in named arg and kw args: '' @ fst kv))
                       (filter (\<lambda>kv. fst kv \<in> set (h_named_kwargs h) \<and> has_key kw0 (fst kv))
                          (dict_of (match_info req))),
                     kw)) \<and>
           (\<forall>k. map_of kw k =
              (if h_has_request_arg h \<and> k = ''request'' then Some (RequestArg req)
               else case map_of (dict_of (match_info req)) k of
                      Some v \<Rightarrow> Some (Arg (PStr v))
                    | None \<Rightarrow> if k \<in> set (h_named_kwargs h) then map_of kw0 k else None))"
proof -
  let ?m = "dict_of (match_info req)"
  let ?base = "filter_named (h_named_kwargs h) kw0 []"
  let ?o = "overlay ?m ([], ?base)"
  have m: "merge_args h req (Some kw0) = (fst ?o, snd ?o)"
    using assms(2,3) by (simp add: merge_args_def)
  have b: "build_kw h req = Inr (Inr (fst ?o, inject_request h req (snd ?o)))"
    using assms(1) m by (simp add: build_kw_def case_prod_unfold)
  have log: "fst ?o = map (\<lambda>kv. Warning (''Duplicate arg name in named arg and kw args: '' @ fst kv))
                       (filter (\<lambda>kv. fst kv \<in> set (h_named_kwargs h) \<and> has_key kw0 (fst kv)) ?m)"
    by (simp add: fst_overlay distinct_dict_of has_key_filter_named)
  have kw: "map_of (inject_request h req (snd ?o)) k =
              (if h_has_request_arg h \<and> k = ''request'' then Some (RequestArg req)
               else case map_of ?m k of
                      Some v \<Rightarrow> Some (Arg (PStr v))
                    | None \<Rightarrow> if k \<in> set (h_named_kwargs h) then map_of kw0 k else None)" for k
    by (simp add: map_of_inject_request map_of_overlay distinct_dict_of map_of_filter_named
        split: option.splits)
  show ?thesis
    using b log kw by simp
qed


theorem path_parameters_overlay_witness:
  "parse_args
     \<lparr>h_func = \<lparr>fname = ''get_blog'', sig_str = ''(*, id, page=1)'',
                 params = [\<lparr>pname = ''id'', kind = KEYWORD_ONLY, has_default = False\<rparr>,
                           \<lparr>pname = ''page'', kind = KEYWORD_ONLY, has_default = True\<rparr>],
                 call = (\<lambda>kw. Return (Value (PStr ''ok'')))\<rparr>,
      h_has_request_arg = False, h_has_var_kwarg = False, h_has_named_kwargs = True,
      h_named_kwargs = [''id'', ''page''], h_required_kwargs = [''id'']\<rparr>
     \<lparr>req_method = ''GET'', content_type = None, json_body = Inr JNull, post_body = Inr [],
      query_string = ''id=1&x=2'', parse_qs = [(''id'', [''1'']), (''x'', [''2''])],
      match_info = [(''id'', ''7'')]\<rparr> = Inr (Inr (Some [(''id'', Arg (PStr ''1'')), (''x'', Arg (PStr ''2''))])) \<and>
   build_kw
     \<lparr>h_func = \<lparr>fname = ''get_blog'', sig_str = ''(*, id, page=1)'',
                 params = [\<lparr>pname = ''id'', kind = KEYWORD_ONLY, has_default = False\<rparr>,
                           \<lparr>pname = ''page'', kind = KEYWORD_ONLY, has_default = True\<rparr>],
                 call = (\<lambda>kw. Return (Value (PStr ''ok'')))\<rparr>,
      h_has_request_arg = False, h_has_var_kwarg = False, h_has_named_kwargs = True,
      h_named_kwargs = [''id'', ''page''], h_required_kwargs = [''id'']\<rparr>
     \<lparr>req_method = ''GET'', content_type = None, json_body = Inr JNull, post_body = Inr [],
      query_string = ''id=1&x=2'', parse_qs = [(''id'', [''1'']), (''x'', [''2''])],
      match_info = [(''id'', ''7'')]\<rparr> = Inr (Inr ([Warning ''Duplicate arg name in named arg and kw args: id''],
                    [(''id'', Arg (PStr ''7''))]))"
  using path_parameters_overlay
    [where h = "\<lparr>h_func = \<lparr>fname = ''get_blog'', sig_str = ''(*, id, page=1)'',
                 params = [\<lparr>pname = ''id'', kind = KEYWORD_ONLY, has_default = False\<rparr>,
                           \<lparr>pname = ''page'', kind = KEYWORD_ONLY, has_default = True\<rparr>],
                 call = (\<lambda>kw. Return (Value (PStr ''ok'')))\<rparr>,
      h_has_request_arg = False, h_has_var_kwarg = False, h_has_named_kwargs = True,
      h_named_kwargs = [''id'', ''page''], h_required_kwargs = [''id'']\<rparr>"
       and req = "\<lparr>req_method = ''GET'', content_type = None, json_body = Inr JNull, post_body = Inr [],
      query_string = ''id=1&x=2'', parse_qs = [(''id'', [''1'']), (''x'', [''2''])],
      match_info = [(''id'', ''7'')]\<rparr>"
       and ?kw0.0 = "[(''id'', Arg (PStr ''1'')), (''x'', Arg (PStr ''2''))]"]
  by (simp add: parse_args_def parse_get_def build_kw_def merge_args_def dict_of_def
      inject_request_def has_key_def)

text \<open>
  Claim C1 as the specification states it fails at the key \<^verbatim>\<open>request\<close>.  For
  \<^verbatim>\<open>async def show(*, request)\<close> on a route with the path parameter
  \<^verbatim>\<open>request\<close>, asked with the query \<^verbatim>\<open>request=1\<close>: the key collides, the warning
  is logged, and the final mapping holds the request object, not the path parameter
  \<^verbatim>\<open>abc\<close>.
\<close>

theorem request_key_overwritten_counterexample:
  "(case RequestHandler_init
           \<lparr>fname = ''show'', sig_str = ''(*, request)'',
            params = [\<lparr>pname = ''request'', kind = KEYWORD_ONLY, has_default = False\<rparr>],
            call = (\<lambda>kw. Return (Value (PStr ''ok'')))\<rparr> of
      Inl e \<Rightarrow> False
    | Inr h \<Rightarrow>
        \<not> h_has_var_kwarg h \<and> h_named_kwargs h = [''request''] \<and>
        parse_args h
          \<lparr>req_method = ''GET'', content_type = None, json_body = Inr JNull,
               post_body = Inr [], query_string = ''request=1'',
               parse_qs = [(''request'', [''1''])], match_info = [(''request'', ''abc'')]\<rparr> = Inr (Inr (Some [(''request'', Arg (PStr ''1''))])) \<and>
        build_kw h
          \<lparr>req_method = ''GET'', content_type = None, json_body = Inr JNull,
               post_body = Inr [], query_string = ''request=1'',
               parse_qs = [(''request'', [''1''])], match_info = [(''request'', ''abc'')]\<rparr> =
          Inr (Inr ([Warning ''Duplicate arg name in named arg and kw args: request''],
                    [(''request'', RequestArg
                        \<lparr>req_method = ''GET'', content_type = None, json_body = Inr JNull,
               post_body = Inr [], query_string = ''request=1'',
               parse_qs = [(''request'', [''1''])], match_info = [(''request'', ''abc'')]\<rparr>)])))"
  by (simp add: RequestHandler_init_def has_request_arg_def get_named_kwargs_def
      get_required_kwargs_def parse_args_def parse_get_def build_kw_def merge_args_def
      dict_of_def inject_request_def has_key_def)

section \<open>JSON responses\<close>















section \<open>Entity classes and their primary key\<close>







section \<open>Transactions in \<open>execute\<close>\<close>

text \<open>What holds of the database operations: without a pool both raise
  \<^verbatim>\<open>PoolNotFoundError\<close>; a successful non-autocommit execution begins, commits and
  returns the row count; a \<^verbatim>\<open>custom_errors.SqlExecutionError\<close> is answered with a
  rollback and raised again.\<close>

lemma execute_without_pool:
  "execute None sql args autocommit = ([], Inl (PoolNotFoundError ''Connection pool is NoneType.''))"
  by (simp add: execute_def)

lemma select_without_pool:
  "select None sql args sz = ([], Inl (PoolNotFoundError ''Connection pool is NoneType.''))"
  by (simp add: select_def)

lemma execute_commit:
  "db_execute p (replace_placeholders sql) args = Inr affected \<Longrightarrow>
   execute (Some p) sql args False =
     ([Acquire, Begin, Execute (replace_placeholders sql) args, Commit, Release], Inr affected)"
  by (simp add: execute_def)

lemma execute_rollback_SqlExecutionError:
  "db_execute p (replace_placeholders sql) args = Inl (SqlExecutionError msg) \<Longrightarrow>
   execute (Some p) sql args False =
     ([Acquire, Begin, Execute (replace_placeholders sql) args, Rollback, Release],
      Inl (SqlExecutionError msg))"
  by (simp add: execute_def)

text \<open>
  Claim C9 is not met by the code.  The \<^verbatim>\<open>except\<close> clause of \<open>execute\<close> names
  \<^verbatim>\<open>custom_errors.SqlExecutionError\<close>, a class that nothing in the repository raises
  and the driver does not know.  When \<^verbatim>\<open>cur.execute\<close> fails with an error of the
  driver in a non-autocommit call, the transaction has begun, the error leaves
  \<open>execute\<close>, and no rollback is issued.
\<close>

theorem execute_driver_error_no_rollback:
  "execute
     (Some \<lparr>db_execute = (\<lambda>sql args. Inl (OtherError ''IntegrityError'')),
            db_select = (\<lambda>sql args. Inr [])\<rparr>)
     ''insert into `users` (`name`, `id`) values (?,?)'' [PStr ''ann'', PInt 1] False =
   ([Acquire, Begin,
     Execute ''insert into `users` (`name`, `id`) values (%s,%s)'' [PStr ''ann'', PInt 1],
     Release],
    Inl (OtherError ''IntegrityError''))"
  by (simp add: execute_def replace_placeholders_def)

end
